theory Spec2Isabelle
  imports Complex_Main "HOL-Library.Multiset"
begin

section \<open>Strings of the program\<close>

text \<open>
  A string of the program is a sequence of UTF-16 code units. A code unit is modelled
  by its number (below 65536 in the program; nothing here depends on the bound), and
  a string literal of the source is written \<open>lit ''...''\<close>.
\<close>

type_synonym code_unit = nat
type_synonym jsstring = "code_unit list"

definition cu :: "char \<Rightarrow> code_unit" where
  "cu c = of_char c"

definition lit :: "string \<Rightarrow> jsstring" where
  "lit s = map cu s"

text \<open>
  White space as \<open>String.prototype.trim\<close> and the regular expression escape
  \<open>\s\<close> see it: the WhiteSpace and LineTerminator code points of ECMAScript
  (TAB, LF, VT, FF, CR, SP, NBSP, U+1680, U+2000 to U+200A, U+2028, U+2029, U+202F,
  U+205F, U+3000 and U+FEFF).
\<close>

definition isWhiteSpace :: "code_unit \<Rightarrow> bool" where
  "isWhiteSpace c =
     (c \<in> set [9, 10, 11, 12, 13, 32, 160, 5760, 8232, 8233, 8239, 8287, 12288, 65279]
      \<or> (8192 \<le> c \<and> c \<le> 8202))"

definition trim :: "jsstring \<Rightarrow> jsstring" where
  "trim s = rev (dropWhile isWhiteSpace (rev (dropWhile isWhiteSpace s)))"

text \<open>\<open>s.slice(b, e)\<close> for indices \<open>0 \<le> b \<le> e\<close>.\<close>

definition slice :: "nat \<Rightarrow> nat \<Rightarrow> jsstring \<Rightarrow> jsstring" where
  "slice b e s = take (e - b) (drop b s)"

text \<open>The ASCII part of the case mappings: \<open>a\<close> to \<open>z\<close> are 97 to 122.\<close>

definition asciiUpper :: "code_unit \<Rightarrow> code_unit" where
  "asciiUpper c = (if 97 \<le> c \<and> c \<le> 122 then c - 32 else c)"


section \<open>Regular expressions of the program\<close>

text \<open>
  The patterns of the source are sequences of character classes, each taken once or
  optionally. A class is a list of single code units, ranges and the escape \<open>\s\<close>.
  With the flag \<open>i\<close> (and without \<open>u\<close>) a code unit matches a class when its
  canonical form is that of a member of the class; ECMAScript's Canonicalize upper-cases
  a code unit and never maps one from 128 on to one below 128, so against the ASCII
  members of these classes only the ASCII case mapping matters. White space has no
  case variants.
\<close>

datatype class_range = Single code_unit | Between code_unit code_unit | WhiteSpaceEscape

datatype atom = CharClass "class_range list" | NegatedClass "class_range list"

datatype quantified = Once atom | Optional atom

definition canonicalize :: "bool \<Rightarrow> code_unit \<Rightarrow> code_unit" where
  "canonicalize ignoreCase c = (if ignoreCase then asciiUpper c else c)"

fun range_matches :: "bool \<Rightarrow> class_range \<Rightarrow> code_unit \<Rightarrow> bool" where
  "range_matches ic (Single a) c = (canonicalize ic a = canonicalize ic c)"
| "range_matches ic (Between lo hi) c =
     list_ex (\<lambda>a. canonicalize ic a = canonicalize ic c) [lo..<Suc hi]"
| "range_matches ic WhiteSpaceEscape c = isWhiteSpace c"

fun atom_matches :: "bool \<Rightarrow> atom \<Rightarrow> code_unit \<Rightarrow> bool" where
  "atom_matches ic (CharClass rs) c = list_ex (\<lambda>r. range_matches ic r c) rs"
| "atom_matches ic (NegatedClass rs) c = (\<not> list_ex (\<lambda>r. range_matches ic r c) rs)"

text \<open>
  \<open>/^...$/.test(s)\<close>: the pattern is anchored at both ends (no flag \<open>m\<close>), so the
  only match that counts starts at the first code unit and ends at the last. An
  optional class is tried first taken, then skipped.
\<close>

fun anchored_match :: "bool \<Rightarrow> quantified list \<Rightarrow> jsstring \<Rightarrow> bool" where
  "anchored_match ic [] s = (s = [])"
| "anchored_match ic (Once a # p) [] = False"
| "anchored_match ic (Once a # p) (c # s) = (atom_matches ic a c \<and> anchored_match ic p s)"
| "anchored_match ic (Optional a # p) [] = anchored_match ic p []"
| "anchored_match ic (Optional a # p) (c # s) =
     ((atom_matches ic a c \<and> anchored_match ic p s) \<or> anchored_match ic p (c # s))"

text \<open>
  \<open>s.replace(/a/g, rep)\<close> for a pattern of one class: every matching code unit is
  replaced. \<open>s.replace(/a+/g, rep)\<close>: every maximal run of matching code units is
  replaced by one copy of \<open>rep\<close>.
\<close>

definition replace_each :: "bool \<Rightarrow> atom \<Rightarrow> jsstring \<Rightarrow> jsstring \<Rightarrow> jsstring" where
  "replace_each ic a rep s = concat (map (\<lambda>c. if atom_matches ic a c then rep else [c]) s)"

function replace_runs :: "bool \<Rightarrow> atom \<Rightarrow> jsstring \<Rightarrow> jsstring \<Rightarrow> jsstring" where
  "replace_runs ic a rep [] = []"
| "replace_runs ic a rep (c # s) =
     (if atom_matches ic a c then rep @ replace_runs ic a rep (dropWhile (atom_matches ic a) s)
      else c # replace_runs ic a rep s)"
  by pat_completeness auto
termination
  by (relation "measure (\<lambda>(ic, a, rep, s). length s)")
     (auto simp: length_dropWhile_le less_Suc_eq_le)

section \<open>Postal code validator\<close>

text \<open>
  \<^verbatim>\<open>
  function validateOntarioPostalCode(postalCode: string): boolean {
    const ontarioPostalRegex = /^[KLMNP][0-9][A-Z]\s?[0-9][A-Z][0-9]$/i;
    return ontarioPostalRegex.test(postalCode.trim());
  }
  \<close>
\<close>

definition digit_class :: atom where
  "digit_class = CharClass [Between (cu CHR ''0'') (cu CHR ''9'')]"

definition letter_class :: atom where
  "letter_class = CharClass [Between (cu CHR ''A'') (cu CHR ''Z'')]"

definition ontarioPostalRegex :: "quantified list" where
  "ontarioPostalRegex =
     [Once (CharClass [Single (cu CHR ''K''), Single (cu CHR ''L''), Single (cu CHR ''M''),
                       Single (cu CHR ''N''), Single (cu CHR ''P'')]),
      Once digit_class, Once letter_class,
      Optional (CharClass [WhiteSpaceEscape]),
      Once digit_class, Once letter_class, Once digit_class]"

definition validateOntarioPostalCode :: "jsstring \<Rightarrow> bool" where
  "validateOntarioPostalCode postalCode = anchored_match True ontarioPostalRegex (trim postalCode)"

text \<open>
  The pattern in the specification's words: one leading letter from K, L, M, N, P,
  a digit, a letter, an optional single white space, then digit, letter, digit,
  letters in either case.
\<close>

definition spec_leading :: "code_unit \<Rightarrow> bool" where
  "spec_leading c = (c \<in> set (lit ''KLMNPklmnp''))"

definition spec_digit :: "code_unit \<Rightarrow> bool" where
  "spec_digit c = (48 \<le> c \<and> c \<le> 57)"

definition spec_letter :: "code_unit \<Rightarrow> bool" where
  "spec_letter c = ((65 \<le> c \<and> c \<le> 90) \<or> (97 \<le> c \<and> c \<le> 122))"

fun spec_postal_pattern :: "jsstring \<Rightarrow> bool" where
  "spec_postal_pattern [a, b, c, d, e, f] =
     (spec_leading a \<and> spec_digit b \<and> spec_letter c \<and>
      spec_digit d \<and> spec_letter e \<and> spec_digit f)"
| "spec_postal_pattern [a, b, c, w, d, e, f] =
     (spec_leading a \<and> spec_digit b \<and> spec_letter c \<and> isWhiteSpace w \<and>
      spec_digit d \<and> spec_letter e \<and> spec_digit f)"
| "spec_postal_pattern s = False"

section \<open>Postal code formatter\<close>

text \<open>
  \<open>String.prototype.toUpperCase\<close> maps every code point by the Unicode case table of
  the runtime, which the sources do not hold. Its ASCII part is fixed: \<open>a\<close> to \<open>z\<close>
  go to \<open>A\<close> to \<open>Z\<close>, every other ASCII code unit stays. White space has no case
  mapping and stays. Every maximal run of other code units is mapped by the table,
  here the parameter \<open>tbl\<close>.
\<close>

type_synonym case_table = "jsstring \<Rightarrow> jsstring"

definition beyond_ascii :: "code_unit \<Rightarrow> bool" where
  "beyond_ascii c = (128 \<le> c \<and> \<not> isWhiteSpace c)"

function toUpperCase :: "case_table \<Rightarrow> jsstring \<Rightarrow> jsstring" where
  "toUpperCase tbl [] = []"
| "toUpperCase tbl (c # s) =
     (if beyond_ascii c
      then tbl (c # takeWhile beyond_ascii s) @ toUpperCase tbl (dropWhile beyond_ascii s)
      else asciiUpper c # toUpperCase tbl s)"
  by pat_completeness auto
termination
  by (relation "measure (\<lambda>(tbl, s). length s)")
     (auto simp: length_dropWhile_le less_Suc_eq_le)

text \<open>
  \<^verbatim>\<open>
  const formatPostalCode = (text: string) => {
    const cleaned = text.toUpperCase().replace(/[^A-Z0-9]/g, '');
    if (cleaned.length > 3) {
      return cleaned.slice(0, 3) + ' ' + cleaned.slice(3, 6);
    }
    return cleaned;
  };
  \<close>
\<close>

definition non_alnum_class :: atom where
  "non_alnum_class =
     NegatedClass [Between (cu CHR ''A'') (cu CHR ''Z''), Between (cu CHR ''0'') (cu CHR ''9'')]"

definition formatPostalCode :: "case_table \<Rightarrow> jsstring \<Rightarrow> jsstring" where
  "formatPostalCode tbl text =
     (let cleaned = replace_each False non_alnum_class [] (toUpperCase tbl text)
      in if length cleaned > 3
         then slice 0 3 cleaned @ lit '' '' @ slice 3 6 cleaned
         else cleaned)"

text \<open>
  The formatter in the specification's words: strip every character outside letters
  and digits, upper-case the remainder, insert a single space after the third
  character once at least four characters are present.
\<close>

definition spec_alnum :: "code_unit \<Rightarrow> bool" where
  "spec_alnum c = (spec_letter c \<or> spec_digit c)"

definition spec_space_after_three :: "jsstring \<Rightarrow> jsstring" where
  "spec_space_after_three r = (if 4 \<le> length r then take 3 r @ lit '' '' @ drop 3 r else r)"

definition spec_format :: "jsstring \<Rightarrow> jsstring" where
  "spec_format s = spec_space_after_three (map asciiUpper (filter spec_alnum s))"

section \<open>Numbers, promises and responses\<close>


definition orZero :: "real option \<Rightarrow> real" where
  "orZero v = (case v of None \<Rightarrow> 0 | Some x \<Rightarrow> x)"

record coordinates =
  lat :: real
  lng :: real

text \<open>
  An awaited promise is rejected or fulfilled. A response of \<open>fetch\<close> has its flag
  \<open>ok\<close> and the promise of \<open>response.json()\<close>, rejected when the body is not JSON.
  What is thrown inside a \<open>try\<close> block is a value of \<open>error\<close>.
\<close>

datatype 'a promise = Rejected | Fulfilled 'a

record 'b response =
  ok :: bool
  json :: "'b promise"

datatype error = NetworkError | ThrownError jsstring | SyntaxError | TypeError

section \<open>Travel time providers\<close>








section \<open>Geocoding resolver\<close>

text \<open>
  The parsed body of a geocoding response, as the resolver reads it:
  \<^item> \<open>Falsy\<close>: \<open>null\<close> (or another falsy value), for which \<open>!data\<close> holds;
  \<^item> \<open>Places ps\<close>: an array of candidates, each with the strings \<open>lat\<close> and \<open>lon\<close>;
    \<open>data.length\<close> is its length and \<open>data[0]\<close> its first element;
  \<^item> \<open>Fields latt longt\<close>: an object with the optional strings \<open>latt\<close> and
    \<open>longt\<close> and no \<open>length\<close>;
  \<^item> \<open>Other\<close>: any other truthy value with no \<open>length\<close>, \<open>latt\<close> or \<open>longt\<close>
    (an error object, say).
  \<open>parseFloat\<close> is the runtime's and a parameter here. A request is named by its
  endpoint and the text put into its URL; the resolver's trace is the list of requests
  it has made, in order.
\<close>

datatype place = Place (place_lat: jsstring) (place_lon: jsstring)

datatype geo_data = Falsy | Places "place list" | Fields "jsstring option" "jsstring option" | Other

datatype request = NominatimPostalcode jsstring | NominatimQuery jsstring | GeocoderCa jsstring

type_synonym geo_fetch = "request \<Rightarrow> geo_data response promise"

text \<open>\<open>!data || data.length === 0\<close>\<close>

fun no_results :: "geo_data \<Rightarrow> bool" where
  "no_results Falsy = True"
| "no_results (Places ps) = (length ps = 0)"
| "no_results (Fields a b) = False"
| "no_results Other = False"

text \<open>\<open>data && data.length > 0\<close>, and then \<open>data[0]\<close>\<close>

fun first_result :: "geo_data \<Rightarrow> place option" where
  "first_result (Places (p # ps)) = Some p"
| "first_result d = None"


text \<open>\<open>geoData && geoData.latt && geoData.longt\<close>, and then the two strings\<close>

fun latt_longt :: "geo_data \<Rightarrow> (jsstring \<times> jsstring) option" where
  "latt_longt (Fields (Some a) (Some b)) = (if a \<noteq> [] \<and> b \<noteq> [] then Some (a, b) else None)"
| "latt_longt d = None"

text \<open>\<open>data = await (await fetch(url)).json()\<close>: the status is not looked at.\<close>

definition await_json :: "geo_data response promise \<Rightarrow> error + geo_data" where
  "await_json r =
     (case r of
        Rejected \<Rightarrow> Inl NetworkError
      | Fulfilled response \<Rightarrow>
          (case json response of Rejected \<Rightarrow> Inl SyntaxError | Fulfilled data \<Rightarrow> Inr data))"

definition white_space_class :: atom where
  "white_space_class = CharClass [WhiteSpaceEscape]"

text \<open>
  \<^verbatim>\<open>
  async function geocodePostalCode(postalCode: string): Promise<Coordinates | null> {
    try {
      const formattedPostalCode = postalCode.trim().replace(/\s+/g, '+');
      let response = await fetch(`https://nominatim.openstreetmap.org/search?postalcode=
          ${formattedPostalCode}&country=Canada&format=json&limit=1`);
      let data = await response.json();
      if (!data || data.length === 0) {
        response = await fetch(`https://nominatim.openstreetmap.org/search?q=
          ${formattedPostalCode}+Ontario+Canada&format=json&limit=1`);
        data = await response.json();
      }
      if (!data || data.length === 0) {
        const cleanPostal = postalCode.trim().replace(/\s+/g, '');
        response = await fetch(`https://geocoder.ca/?locate=${cleanPostal}&geoit=XML&json=1`);
        if (response.ok) {
          const geoData = await response.json();
          if (geoData && geoData.latt && geoData.longt) {
            return { lat: parseFloat(geoData.latt), lng: parseFloat(geoData.longt) };
          }
        }
      }
      if (data && data.length > 0) {
        return { lat: parseFloat(data[0].lat), lng: parseFloat(data[0].lon) };
      }
      return null;
    } catch (error) {
      console.error('Error geocoding postal code:', error);
      return null;
    }
  }
  \<close>
  The three requests, then the \<open>try\<close> block from its end to its start: each part
  gives what the block returns or throws, and the requests made from there on.
\<close>

definition structured_request :: "jsstring \<Rightarrow> request" where
  "structured_request postalCode =
     NominatimPostalcode (replace_runs False white_space_class (lit ''+'') (trim postalCode))"

definition free_text_request :: "jsstring \<Rightarrow> request" where
  "free_text_request postalCode =
     NominatimQuery (replace_runs False white_space_class (lit ''+'') (trim postalCode))"

definition alternate_request :: "jsstring \<Rightarrow> request" where
  "alternate_request postalCode =
     GeocoderCa (replace_runs False white_space_class [] (trim postalCode))"

definition geocode_last :: "(jsstring \<Rightarrow> real) \<Rightarrow> geo_data \<Rightarrow> coordinates option" where
  "geocode_last parseFloat data =
     (case first_result data of
        Some p \<Rightarrow> Some \<lparr>lat = parseFloat (place_lat p), lng = parseFloat (place_lon p)\<rparr>
      | None \<Rightarrow> None)"

definition geocode_alternate ::
    "(jsstring \<Rightarrow> real) \<Rightarrow> geo_fetch \<Rightarrow> jsstring \<Rightarrow> geo_data \<Rightarrow>
     (error + coordinates option) \<times> request list" where
  "geocode_alternate parseFloat fetch postalCode data =
     (if no_results data then
        (case fetch (alternate_request postalCode) of
           Rejected \<Rightarrow> (Inl NetworkError, [alternate_request postalCode])
         | Fulfilled response \<Rightarrow>
             if ok response then
               (case json response of
                  Rejected \<Rightarrow> (Inl SyntaxError, [alternate_request postalCode])
                | Fulfilled geoData \<Rightarrow>
                    (case latt_longt geoData of
                       Some (a, b) \<Rightarrow>
                         (Inr (Some \<lparr>lat = parseFloat a, lng = parseFloat b\<rparr>),
                          [alternate_request postalCode])
                     | None \<Rightarrow>
                         (Inr (geocode_last parseFloat data), [alternate_request postalCode])))
             else (Inr (geocode_last parseFloat data), [alternate_request postalCode]))
      else (Inr (geocode_last parseFloat data), []))"

definition geocode_free_text ::
    "(jsstring \<Rightarrow> real) \<Rightarrow> geo_fetch \<Rightarrow> jsstring \<Rightarrow> geo_data \<Rightarrow>
     (error + coordinates option) \<times> request list" where
  "geocode_free_text parseFloat fetch postalCode data =
     (if no_results data then
        (case await_json (fetch (free_text_request postalCode)) of
           Inl e \<Rightarrow> (Inl e, [free_text_request postalCode])
         | Inr data' \<Rightarrow>
             (case geocode_alternate parseFloat fetch postalCode data' of
                (r, trace) \<Rightarrow> (r, free_text_request postalCode # trace)))
      else geocode_alternate parseFloat fetch postalCode data)"

definition geocode_try ::
    "(jsstring \<Rightarrow> real) \<Rightarrow> geo_fetch \<Rightarrow> jsstring \<Rightarrow> (error + coordinates option) \<times> request list" where
  "geocode_try parseFloat fetch postalCode =
     (case await_json (fetch (structured_request postalCode)) of
        Inl e \<Rightarrow> (Inl e, [structured_request postalCode])
      | Inr data \<Rightarrow>
          (case geocode_free_text parseFloat fetch postalCode data of
             (r, trace) \<Rightarrow> (r, structured_request postalCode # trace)))"

definition geocodePostalCode ::
    "(jsstring \<Rightarrow> real) \<Rightarrow> geo_fetch \<Rightarrow> jsstring \<Rightarrow> coordinates option \<times> request list" where
  "geocodePostalCode parseFloat fetch postalCode =
     (case geocode_try parseFloat fetch postalCode of
        (Inr result, trace) \<Rightarrow> (result, trace)
      | (Inl e, trace) \<Rightarrow> (None, trace))"

text \<open>
  The chain in the specification's words: a step that raises counts as a step without
  result and the chain goes on to the next step; the resolver fails only when all
  three steps are empty or failed.
\<close>

definition spec_step :: "geo_fetch \<Rightarrow> request \<Rightarrow> geo_data" where
  "spec_step fetch r = (case await_json (fetch r) of Inl e \<Rightarrow> Falsy | Inr data \<Rightarrow> data)"

definition spec_alternate_step :: "geo_fetch \<Rightarrow> request \<Rightarrow> (jsstring \<times> jsstring) option" where
  "spec_alternate_step fetch r =
     (case fetch r of
        Rejected \<Rightarrow> None
      | Fulfilled response \<Rightarrow>
          if ok response
          then (case json response of Rejected \<Rightarrow> None | Fulfilled geoData \<Rightarrow> latt_longt geoData)
          else None)"

definition spec_geocode_chain ::
    "(jsstring \<Rightarrow> real) \<Rightarrow> geo_fetch \<Rightarrow> jsstring \<Rightarrow> coordinates option" where
  "spec_geocode_chain parseFloat fetch postalCode =
     (if \<not> no_results (spec_step fetch (structured_request postalCode))
      then geocode_last parseFloat (spec_step fetch (structured_request postalCode))
      else if \<not> no_results (spec_step fetch (free_text_request postalCode))
      then geocode_last parseFloat (spec_step fetch (free_text_request postalCode))
      else (case spec_alternate_step fetch (alternate_request postalCode) of
              Some (a, b) \<Rightarrow> Some \<lparr>lat = parseFloat a, lng = parseFloat b\<rparr>
            | None \<Rightarrow> None))"

section \<open>Reverse geocoding\<close>
















section \<open>Hospitals and the sort engine\<close>

record hospital =
  hospital_id :: jsstring
  name :: jsstring
  hospital_address :: jsstring
  hospital_city :: jsstring
  coordinates :: coordinates
  currentWaitTime :: real
  lastUpdated :: jsstring
  phone :: jsstring
  services :: "jsstring list"
  distance :: "real option"
  score :: "real option"
  travelTimeMinutes :: "real option"
  totalTimeMinutes :: "real option"

datatype SortMode = Combined | TravelTime | WaitTime

text \<open>
  \<open>Array.prototype.sort(compare)\<close> is a stable sort: with a comparator that orders
  the elements consistently, as the differences of keys below do, its result is the
  one list with the elements of the input in non-decreasing order of the comparator
  and equal elements in their order of the input. Insertion from the right computes
  that list.
\<close>

fun insert_sorted :: "('a \<Rightarrow> 'a \<Rightarrow> real) \<Rightarrow> 'a \<Rightarrow> 'a list \<Rightarrow> 'a list" where
  "insert_sorted compare x [] = [x]"
| "insert_sorted compare x (y # ys) =
     (if compare x y \<le> 0 then x # y # ys else y # insert_sorted compare x ys)"

definition array_sort :: "('a \<Rightarrow> 'a \<Rightarrow> real) \<Rightarrow> 'a list \<Rightarrow> 'a list" where
  "array_sort compare xs = foldr (insert_sorted compare) xs []"

text \<open>
  \<^verbatim>\<open>
  const sortHospitals = (hospitalList: Hospital[], mode: SortMode): Hospital[] => {
    const sorted = [...hospitalList];
    switch (mode) {
      case 'travelTime':
        return sorted.sort((a, b) => (a.travelTimeMinutes || 0) - (b.travelTimeMinutes || 0));
      case 'waitTime':
        return sorted.sort((a, b) => a.currentWaitTime - b.currentWaitTime);
      case 'combined':
      default:
        return sorted.sort((a, b) => (a.totalTimeMinutes || 0) - (b.totalTimeMinutes || 0));
    }
  };
  \<close>
\<close>

definition sortHospitals :: "hospital list \<Rightarrow> SortMode \<Rightarrow> hospital list" where
  "sortHospitals hospitalList mode =
     (let sorted = hospitalList
      in case mode of
           TravelTime \<Rightarrow>
             array_sort (\<lambda>a b. orZero (travelTimeMinutes a) - orZero (travelTimeMinutes b)) sorted
         | WaitTime \<Rightarrow>
             array_sort (\<lambda>a b. currentWaitTime a - currentWaitTime b) sorted
         | Combined \<Rightarrow>
             array_sort (\<lambda>a b. orZero (totalTimeMinutes a) - orZero (totalTimeMinutes b)) sorted)"

text \<open>The key the sort mode orders by, and the sum the specification names.\<close>

fun sort_key_of :: "SortMode \<Rightarrow> hospital \<Rightarrow> real" where
  "sort_key_of TravelTime h = orZero (travelTimeMinutes h)"
| "sort_key_of WaitTime h = currentWaitTime h"
| "sort_key_of Combined h = orZero (totalTimeMinutes h)"


section \<open>Hospital nearby fetcher\<close>








text \<open>
  A hospital record with empty texts, no waiting time and no optional field, from
  which the examples below are built by record update.
\<close>

definition blank_hospital :: hospital where
  "blank_hospital =
     \<lparr>hospital_id = [], name = [], hospital_address = [], hospital_city = [],
      coordinates = \<lparr>lat = 0, lng = 0\<rparr>, currentWaitTime = 0, lastUpdated = [],
      phone = [], services = [], distance = None, score = None,
      travelTimeMinutes = None, totalTimeMinutes = None\<rparr>"

section \<open>The validator matches the pattern\<close>

lemma cu_codes:
  "cu CHR ''0'' = 48" "cu CHR ''9'' = 57" "cu CHR ''A'' = 65" "cu CHR ''Z'' = 90"
  "cu CHR ''K'' = 75" "cu CHR ''L'' = 76" "cu CHR ''M'' = 77" "cu CHR ''N'' = 78" "cu CHR ''P'' = 80"
  by (simp_all add: cu_def)

lemma between_ignore_case:
  "range_matches True (Between lo hi) c = (\<exists>a. lo \<le> a \<and> a \<le> hi \<and> asciiUpper a = asciiUpper c)"
  by (auto simp: list_ex_iff canonicalize_def)

lemma between_exact:
  "range_matches False (Between lo hi) c = (lo \<le> c \<and> c \<le> hi)"
  by (auto simp: list_ex_iff canonicalize_def)

lemma between_upper:
  assumes "hi < 97"
  shows "range_matches True (Between lo hi) c = (lo \<le> asciiUpper c \<and> asciiUpper c \<le> hi)"
proof -
  have "asciiUpper a = a" if "a \<le> hi" for a
    using that assms by (simp add: asciiUpper_def)
  then show ?thesis
    unfolding between_ignore_case by (metis order_refl)
qed

lemma digit_class_matches: "atom_matches True digit_class c = spec_digit c"
  by (auto simp: digit_class_def between_upper cu_codes spec_digit_def asciiUpper_def
           simp del: range_matches.simps)

lemma letter_class_matches: "atom_matches True letter_class c = spec_letter c"
  by (auto simp: letter_class_def between_upper cu_codes spec_letter_def asciiUpper_def
           simp del: range_matches.simps)

lemma leading_class_matches:
  "atom_matches True (CharClass [Single (cu CHR ''K''), Single (cu CHR ''L''), Single (cu CHR ''M''),
                       Single (cu CHR ''N''), Single (cu CHR ''P'')]) c = spec_leading c"
  by (auto simp: cu_codes canonicalize_def asciiUpper_def spec_leading_def lit_def cu_def split: if_splits)

lemma regex_is_pattern: "anchored_match True ontarioPostalRegex s = spec_postal_pattern s"
  unfolding ontarioPostalRegex_def
  by (cases s rule: spec_postal_pattern.cases)
     (simp_all add: digit_class_matches letter_class_matches leading_class_matches
        del: atom_matches.simps, auto)


lemma trim_decomposes:
  "\<exists>pre post. s = pre @ trim s @ post \<and> list_all isWhiteSpace pre \<and> list_all isWhiteSpace post"
proof -
  define d where "d = dropWhile isWhiteSpace s"
  define e where "e = takeWhile isWhiteSpace (rev d)"
  have "rev d = e @ dropWhile isWhiteSpace (rev d)"
    unfolding e_def by (rule takeWhile_dropWhile_id [symmetric])
  then have "rev (rev d) = rev (e @ dropWhile isWhiteSpace (rev d))"
    by (rule arg_cong)
  then have d: "d = trim s @ rev e"
    by (simp add: trim_def d_def)
  have "s = takeWhile isWhiteSpace s @ d"
    by (simp add: d_def)
  with d have "s = takeWhile isWhiteSpace s @ trim s @ rev e"
    by simp
  moreover have "list_all isWhiteSpace (takeWhile isWhiteSpace s)"
    by (simp add: list_all_iff) (meson set_takeWhileD)
  moreover have "list_all isWhiteSpace (rev e)"
    unfolding e_def by (simp add: list_all_iff) (meson set_takeWhileD)
  ultimately show ?thesis
    by blast
qed

lemma trim_core:
  assumes "list_all isWhiteSpace pre" "list_all isWhiteSpace post"
    and "t \<noteq> []" "\<not> isWhiteSpace (hd t)" "\<not> isWhiteSpace (last t)"
  shows "trim (pre @ t @ post) = t"
proof -
  have "dropWhile isWhiteSpace (pre @ t @ post) = dropWhile isWhiteSpace (t @ post)"
    by (rule dropWhile_append2) (use assms(1) in \<open>simp add: list_all_iff\<close>)
  also have "\<dots> = t @ post"
    using assms(3,4) by (cases t) simp_all
  finally have 1: "dropWhile isWhiteSpace (pre @ t @ post) = t @ post" .
  have "dropWhile isWhiteSpace (rev post @ rev t) = dropWhile isWhiteSpace (rev t)"
    by (rule dropWhile_append2) (use assms(2) in \<open>simp add: list_all_iff\<close>)
  also have "\<dots> = rev t"
    using assms(3,5) by (cases t rule: rev_cases) simp_all
  finally show ?thesis
    by (simp add: trim_def 1)
qed

lemma leading_not_space: "spec_leading c \<Longrightarrow> \<not> isWhiteSpace c"
  by (auto simp: spec_leading_def isWhiteSpace_def lit_def cu_def)

lemma digit_not_space: "spec_digit c \<Longrightarrow> \<not> isWhiteSpace c"
  by (auto simp: spec_digit_def isWhiteSpace_def)

lemma letter_not_space: "spec_letter c \<Longrightarrow> \<not> isWhiteSpace c"
  by (auto simp: spec_letter_def isWhiteSpace_def)

lemma pattern_ends:
  assumes "spec_postal_pattern t"
  shows "t \<noteq> [] \<and> \<not> isWhiteSpace (hd t) \<and> \<not> isWhiteSpace (last t)"
  using assms
  by (cases t rule: spec_postal_pattern.cases) (auto simp: leading_not_space digit_not_space)

lemma validate_iff_pattern: "validateOntarioPostalCode s = spec_postal_pattern (trim s)"
  by (simp add: validateOntarioPostalCode_def regex_is_pattern)

lemma validate_iff_padded:
  "validateOntarioPostalCode s =
     (\<exists>pre t post. s = pre @ t @ post \<and> list_all isWhiteSpace pre \<and>
        list_all isWhiteSpace post \<and> spec_postal_pattern t)"
proof
  assume "validateOntarioPostalCode s"
  then have "spec_postal_pattern (trim s)"
    by (simp add: validate_iff_pattern)
  with trim_decomposes [of s] show "\<exists>pre t post. s = pre @ t @ post \<and> list_all isWhiteSpace pre \<and>
        list_all isWhiteSpace post \<and> spec_postal_pattern t"
    by blast
next
  assume "\<exists>pre t post. s = pre @ t @ post \<and> list_all isWhiteSpace pre \<and>
        list_all isWhiteSpace post \<and> spec_postal_pattern t"
  then obtain pre t post where s: "s = pre @ t @ post"
    and ws: "list_all isWhiteSpace pre" "list_all isWhiteSpace post"
    and t: "spec_postal_pattern t"
    by blast
  from trim_core [OF ws] pattern_ends [OF t] have "trim s = t"
    by (simp add: s)
  with t show "validateOntarioPostalCode s"
    by (simp add: validate_iff_pattern)
qed

text \<open>
  C6. For every string \<open>s\<close>, \<open>validateOntarioPostalCode s\<close> is true exactly when \<open>s\<close>,
  leading and trailing white space ignored, matches the pattern: a letter of K, L, M,
  N, P, a digit, a letter, an optional single white space, then digit, letter, digit,
  letters in either case. Stated twice: on the trimmed string, and as a decomposition
  of \<open>s\<close> into white space, a match and white space. The strings \<open>K1A0B1\<close> and
  \<open>k1a 0b1\<close> are valid, \<open>A1A 1A1\<close> and \<open>K1A 0B\<close> are not. The function is total: a
  boolean is returned for every string.
\<close>

theorem validate_matches_pattern:
  "(validateOntarioPostalCode s = spec_postal_pattern (trim s)) \<and>
   (validateOntarioPostalCode s =
      (\<exists>pre t post. s = pre @ t @ post \<and> list_all isWhiteSpace pre \<and>
         list_all isWhiteSpace post \<and> spec_postal_pattern t)) \<and>
   validateOntarioPostalCode (lit ''K1A0B1'') \<and>
   validateOntarioPostalCode (lit ''k1a 0b1'') \<and>
   \<not> validateOntarioPostalCode (lit ''A1A 1A1'') \<and>
   \<not> validateOntarioPostalCode (lit ''K1A 0B'')"
proof -
  note ev = validate_iff_pattern trim_def lit_def cu_def isWhiteSpace_def
    spec_leading_def spec_digit_def spec_letter_def
  have "validateOntarioPostalCode (lit ''K1A0B1'')"
    by (simp add: ev)
  moreover have "validateOntarioPostalCode (lit ''k1a 0b1'')"
    by (simp add: ev)
  moreover have "\<not> validateOntarioPostalCode (lit ''A1A 1A1'')"
    by (simp add: ev)
  moreover have "\<not> validateOntarioPostalCode (lit ''K1A 0B'')"
    by (simp add: ev)
  ultimately show ?thesis
    using validate_iff_pattern [of s] validate_iff_padded [of s] by blast
qed

theorem validate_matches_pattern_witness:
  "validateOntarioPostalCode (lit '' M5V 3L9 '') \<and>
   trim (lit '' M5V 3L9 '') = lit ''M5V 3L9'' \<and>
   \<not> validateOntarioPostalCode (lit ''M5V  3L9'')"
proof -
  have 1: "trim (lit '' M5V 3L9 '') = lit ''M5V 3L9''"
    by (simp add: trim_def lit_def cu_def isWhiteSpace_def)
  have 2: "trim (lit ''M5V  3L9'') = lit ''M5V  3L9''"
    by (simp add: trim_def lit_def cu_def isWhiteSpace_def)
  have 3: "spec_postal_pattern (lit ''M5V 3L9'')"
    by (simp add: lit_def cu_def isWhiteSpace_def spec_leading_def spec_digit_def spec_letter_def)
  have 4: "\<not> spec_postal_pattern (lit ''M5V  3L9'')"
    by (simp add: lit_def cu_def)
  show ?thesis
    using validate_matches_pattern [of "lit '' M5V 3L9 ''"]
      validate_matches_pattern [of "lit ''M5V  3L9''"] 1 2 3 4
    by simp
qed

section \<open>The formatter\<close>

lemma non_alnum_matches:
  "atom_matches False non_alnum_class c = (\<not> ((65 \<le> c \<and> c \<le> 90) \<or> spec_digit c))"
  by (auto simp: non_alnum_class_def between_exact cu_codes spec_digit_def
           simp del: range_matches.simps)

lemma cleaned_is_filter:
  "replace_each False non_alnum_class [] s = filter (\<lambda>c. (65 \<le> c \<and> c \<le> 90) \<or> spec_digit c) s"
  unfolding replace_each_def non_alnum_matches
  by (induction s) simp_all

lemma toUpperCase_plain:
  "\<forall>c\<in>set s. \<not> beyond_ascii c \<Longrightarrow> toUpperCase tbl s = map asciiUpper s"
  by (induction s) simp_all

lemma upper_alnum:
  "((65 \<le> asciiUpper c \<and> asciiUpper c \<le> 90) \<or> spec_digit (asciiUpper c)) = spec_alnum c"
  by (auto simp: asciiUpper_def spec_alnum_def spec_letter_def spec_digit_def)

lemma filter_upper:
  "filter (\<lambda>c. (65 \<le> c \<and> c \<le> 90) \<or> spec_digit c) (map asciiUpper s) =
   map asciiUpper (filter spec_alnum s)"
  by (induction s) (simp_all add: upper_alnum)

lemma space_after_three_six:
  "(if length r > 3 then slice 0 3 r @ lit '' '' @ slice 3 6 r else r) =
   spec_space_after_three (take 6 r)"
  by (auto simp: slice_def spec_space_after_three_def drop_take min_def)

lemma format_truncates:
  "formatPostalCode tbl s =
   spec_space_after_three (take 6 (replace_each False non_alnum_class [] (toUpperCase tbl s)))"
  by (simp add: formatPostalCode_def Let_def space_after_three_six del: replace_runs.simps)

lemma format_plain:
  assumes "\<forall>c\<in>set s. \<not> beyond_ascii c"
  shows "formatPostalCode tbl s = spec_space_after_three (take 6 (map asciiUpper (filter spec_alnum s)))"
  by (simp add: format_truncates toUpperCase_plain [OF assms] cleaned_is_filter filter_upper)

lemma ascii_plain: "c < 128 \<Longrightarrow> \<not> beyond_ascii c"
  by (simp add: beyond_ascii_def)

lemma space_not_alnum: "isWhiteSpace c \<Longrightarrow> \<not> spec_alnum c"
  using digit_not_space letter_not_space by (auto simp: spec_alnum_def)

lemma space_plain: "isWhiteSpace c \<Longrightarrow> \<not> beyond_ascii c"
  by (simp add: beyond_ascii_def)

lemma alnum_plain: "spec_alnum c \<Longrightarrow> \<not> beyond_ascii c"
  by (auto simp: beyond_ascii_def spec_alnum_def spec_letter_def spec_digit_def)

lemma leading_letter: "spec_leading c \<Longrightarrow> spec_letter c"
  by (auto simp: spec_leading_def spec_letter_def lit_def cu_def)

lemma filter_spaces: "list_all isWhiteSpace ws \<Longrightarrow> filter spec_alnum ws = []"
  by (induction ws) (simp_all add: space_not_alnum)

lemma pattern_core:
  assumes "spec_postal_pattern t"
  shows "\<exists>a b c d e f. filter spec_alnum t = [a, b, c, d, e, f] \<and>
           spec_leading a \<and> spec_digit b \<and> spec_letter c \<and>
           spec_digit d \<and> spec_letter e \<and> spec_digit f"
  using assms
  by (cases t rule: spec_postal_pattern.cases)
     (auto simp: spec_alnum_def leading_letter dest: letter_not_space digit_not_space)

lemma pattern_plain:
  assumes "spec_postal_pattern t"
  shows "\<forall>x\<in>set t. \<not> beyond_ascii x"
  using assms
  by (cases t rule: spec_postal_pattern.cases)
     (auto simp: spec_alnum_def leading_letter space_plain alnum_plain)

lemma upper_keeps:
  "spec_leading c \<Longrightarrow> spec_leading (asciiUpper c)"
  "spec_digit c \<Longrightarrow> spec_digit (asciiUpper c)"
  "spec_letter c \<Longrightarrow> spec_letter (asciiUpper c)"
  by (auto simp: spec_leading_def spec_digit_def spec_letter_def asciiUpper_def lit_def cu_def)

lemma space_is_white: "isWhiteSpace 32"
  by (simp add: isWhiteSpace_def)

text \<open>
  C7, as stated: the formatter strips the characters outside letters and digits,
  upper-cases the remainder and inserts a space after the third character once four
  are present. It fails on an input with more than six letters and digits: the
  source keeps \<open>cleaned.slice(3, 6)\<close> after the space and drops the rest.
\<close>

theorem format_drops_seventh_counterexample:
  "formatPostalCode id (lit ''K1A0B1X'') = lit ''K1A 0B1'' \<and>
   spec_format (lit ''K1A0B1X'') = lit ''K1A 0B1X'' \<and>
   formatPostalCode id (lit ''K1A0B1X'') \<noteq> spec_format (lit ''K1A0B1X'')"
proof -
  have 1: "formatPostalCode id (lit ''K1A0B1X'') = lit ''K1A 0B1''"
    by (subst format_plain)
       (simp_all add: lit_def cu_def beyond_ascii_def spec_space_after_three_def
          spec_alnum_def spec_letter_def spec_digit_def asciiUpper_def)
  have 2: "spec_format (lit ''K1A0B1X'') = lit ''K1A 0B1X''"
    by (simp add: lit_def cu_def spec_space_after_three_def spec_format_def
          spec_alnum_def spec_letter_def spec_digit_def asciiUpper_def)
  have "lit ''K1A 0B1'' \<noteq> lit ''K1A 0B1X''"
    by (simp add: lit_def)
  with 1 2 show ?thesis
    by simp
qed

text \<open>
  C7, amended: for every input string the formatter upper-cases the input, strips
  every character outside \<open>A\<close> to \<open>Z\<close> and \<open>0\<close> to \<open>9\<close>, keeps the first six of
  the characters left and inserts a single space after the third once at least four
  are there. On an ASCII input this is: strip the characters outside letters and
  digits, upper-case the remainder, keep the first six, insert the space. In
  particular \<open>formatPostalCode("k1a0b1")\<close> is \<open>"K1A 0B1"\<close>.
\<close>

theorem format_keeps_six:
  "formatPostalCode tbl s =
     spec_space_after_three
       (take 6 (replace_each False non_alnum_class [] (toUpperCase tbl s))) \<and>
   ((\<forall>c\<in>set s. c < 128) \<longrightarrow>
      formatPostalCode tbl s =
        spec_space_after_three (take 6 (map asciiUpper (filter spec_alnum s)))) \<and>
   formatPostalCode tbl (lit ''k1a0b1'') = lit ''K1A 0B1''"
proof -
  have "formatPostalCode tbl (lit ''k1a0b1'') = lit ''K1A 0B1''"
    by (subst format_plain)
       (simp_all add: lit_def cu_def beyond_ascii_def spec_space_after_three_def
          spec_alnum_def spec_letter_def spec_digit_def asciiUpper_def)
  then show ?thesis
    using format_truncates [of tbl s] format_plain [of s tbl] ascii_plain by blast
qed

theorem format_keeps_six_witness:
  "formatPostalCode id (lit ''m5v-3l9 xy'') = lit ''M5V 3L9''"
proof -
  have "\<forall>c\<in>set (lit ''m5v-3l9 xy''). c < 128"
    by (simp add: lit_def cu_def)
  with format_keeps_six [of id "lit ''m5v-3l9 xy''"]
  have "formatPostalCode id (lit ''m5v-3l9 xy'') =
        spec_space_after_three (take 6 (map asciiUpper (filter spec_alnum (lit ''m5v-3l9 xy''))))"
    by blast
  then show ?thesis
    by (simp add: lit_def cu_def spec_space_after_three_def
          spec_alnum_def spec_letter_def spec_digit_def asciiUpper_def)
qed

text \<open>
  C10. Formatting preserves validity: for every string \<open>s\<close> that the validator
  accepts, the validator accepts \<open>formatPostalCode s\<close> too, whatever the case table
  of the runtime does outside ASCII and white space.
\<close>

theorem format_preserves_validity:
  assumes "validateOntarioPostalCode s"
  shows "validateOntarioPostalCode (formatPostalCode tbl s)"
proof -
  from assms obtain pre t post where s: "s = pre @ t @ post"
    and ws: "list_all isWhiteSpace pre" "list_all isWhiteSpace post"
    and t: "spec_postal_pattern t"
    unfolding validate_iff_padded by blast
  from pattern_core [OF t] obtain a b c d e f
    where core: "filter spec_alnum t = [a, b, c, d, e, f]"
      and cls: "spec_leading a" "spec_digit b" "spec_letter c"
               "spec_digit d" "spec_letter e" "spec_digit f"
    by blast
  have plain: "\<forall>x\<in>set s. \<not> beyond_ascii x"
    using ws pattern_plain [OF t] by (auto simp: s list_all_iff space_plain)
  have kept: "filter spec_alnum s = [a, b, c, d, e, f]"
    by (simp add: s filter_spaces ws core)
  define r where "r = [asciiUpper a, asciiUpper b, asciiUpper c, 32,
                       asciiUpper d, asciiUpper e, asciiUpper f]"
  have fmt: "formatPostalCode tbl s = r"
    by (simp add: format_plain [OF plain] kept spec_space_after_three_def lit_def cu_def r_def)
  have pat: "spec_postal_pattern r"
    by (simp add: r_def upper_keeps cls space_is_white)
  from trim_core [of "[]" "[]" r] pattern_ends [OF pat] have "trim r = r"
    by simp
  with pat show ?thesis
    by (simp add: fmt validate_iff_pattern)
qed

theorem format_preserves_validity_witness:
  "validateOntarioPostalCode (lit '' k1a 0b1'') \<and>
   validateOntarioPostalCode (formatPostalCode id (lit '' k1a 0b1''))"
proof -
  have "validateOntarioPostalCode (lit '' k1a 0b1'')"
    by (simp add: validate_iff_pattern trim_def lit_def cu_def isWhiteSpace_def
      spec_leading_def spec_digit_def spec_letter_def)
  then show ?thesis
    using format_preserves_validity [of "lit '' k1a 0b1''" id] by simp
qed

section \<open>The routing provider's fallback\<close>







section \<open>The geocoding chain\<close>


lemma first_result_empty: "no_results d \<Longrightarrow> first_result d = None"
  by (cases d rule: first_result.cases) simp_all

lemma geocode_last_empty: "no_results d \<Longrightarrow> geocode_last pf d = None"
  by (simp add: geocode_last_def first_result_empty)

lemma try_first_throws:
  "await_json (fetch (structured_request pc)) = Inl e \<Longrightarrow>
   geocode_try pf fetch pc = (Inl e, [structured_request pc])"
  by (simp add: geocode_try_def)


lemma try_second_throws:
  "await_json (fetch (structured_request pc)) = Inr d1 \<Longrightarrow> no_results d1 \<Longrightarrow>
   await_json (fetch (free_text_request pc)) = Inl e \<Longrightarrow>
   geocode_try pf fetch pc = (Inl e, [structured_request pc, free_text_request pc])"
  by (simp add: geocode_try_def geocode_free_text_def)


lemma try_third:
  "await_json (fetch (structured_request pc)) = Inr d1 \<Longrightarrow> no_results d1 \<Longrightarrow>
   await_json (fetch (free_text_request pc)) = Inr d2 \<Longrightarrow> no_results d2 \<Longrightarrow>
   geocode_try pf fetch pc =
     (case fetch (alternate_request pc) of
        Rejected \<Rightarrow> Inl NetworkError
      | Fulfilled response \<Rightarrow>
          if ok response then
            (case json response of
               Rejected \<Rightarrow> Inl SyntaxError
             | Fulfilled geoData \<Rightarrow>
                 (case latt_longt geoData of
                    Some (a, b) \<Rightarrow> Inr (Some \<lparr>lat = pf a, lng = pf b\<rparr>)
                  | None \<Rightarrow> Inr None))
          else Inr None,
      [structured_request pc, free_text_request pc, alternate_request pc])"
  by (simp add: geocode_try_def geocode_free_text_def geocode_alternate_def geocode_last_empty
           split: promise.splits option.splits)


lemma length_lit: "length (lit s) = length s"
  by (simp add: lit_def)


lemma requests_of_example:
  "structured_request (lit ''M5V 3L9'') = NominatimPostalcode (lit ''M5V+3L9'')"
  "free_text_request (lit ''M5V 3L9'') = NominatimQuery (lit ''M5V+3L9'')"
  "alternate_request (lit ''M5V 3L9'') = GeocoderCa (lit ''M5V3L9'')"
  by (simp_all add: structured_request_def free_text_request_def alternate_request_def
        white_space_class_def trim_def lit_def cu_def isWhiteSpace_def)

text \<open>
  C2, as stated: when a step of the chain raises, the chain goes on to the next step,
  and the resolver fails only when all three steps are empty or failed. It fails when
  the structured search raises (here \<open>fetch\<close> rejects) and the free-text search
  would have answered with a candidate: the one handler around the whole chain returns
  \<open>null\<close> after the first request, where the chain of the specification returns
  the candidate's coordinates.
\<close>

theorem geocode_chain_stops_counterexample:
  "geocodePostalCode (\<lambda>s. real (length s))
     (\<lambda>r. case r of
        NominatimPostalcode q \<Rightarrow> Rejected
      | NominatimQuery q \<Rightarrow>
          Fulfilled \<lparr>ok = True, json = Fulfilled (Places [Place (lit ''43.64'') (lit ''-79.39'')])\<rparr>
      | GeocoderCa q \<Rightarrow> Rejected)
     (lit ''M5V 3L9'') = (None, [NominatimPostalcode (lit ''M5V+3L9'')]) \<and>
   spec_geocode_chain (\<lambda>s. real (length s))
     (\<lambda>r. case r of
        NominatimPostalcode q \<Rightarrow> Rejected
      | NominatimQuery q \<Rightarrow>
          Fulfilled \<lparr>ok = True, json = Fulfilled (Places [Place (lit ''43.64'') (lit ''-79.39'')])\<rparr>
      | GeocoderCa q \<Rightarrow> Rejected)
     (lit ''M5V 3L9'') = Some \<lparr>lat = 5, lng = 6\<rparr>"
  by (simp add: geocodePostalCode_def geocode_try_def spec_geocode_chain_def spec_step_def
        requests_of_example await_json_def geocode_last_def length_lit)

text \<open>
  C2, amended: an exception raised at any step of the chain (\<open>fetch\<close> rejecting, or
  a body that is not JSON) ends the chain: the resolver returns \<open>null\<close> at once and
  makes no further request. It returns \<open>null\<close> as well when the structured and the
  free-text search are empty and the alternate provider raises, answers with a
  non-success status or answers without both coordinates: an error of the alternate
  provider is reported as the failure.
\<close>

theorem geocode_exception_aborts:
  "(\<forall>e. await_json (fetch (structured_request pc)) = Inl e \<longrightarrow>
      geocodePostalCode pf fetch pc = (None, [structured_request pc])) \<and>
   (\<forall>d1 e. await_json (fetch (structured_request pc)) = Inr d1 \<and> no_results d1 \<and>
      await_json (fetch (free_text_request pc)) = Inl e \<longrightarrow>
      geocodePostalCode pf fetch pc = (None, [structured_request pc, free_text_request pc])) \<and>
   (\<forall>d1 d2. await_json (fetch (structured_request pc)) = Inr d1 \<and> no_results d1 \<and>
      await_json (fetch (free_text_request pc)) = Inr d2 \<and> no_results d2 \<and>
      (case fetch (alternate_request pc) of
         Rejected \<Rightarrow> True
       | Fulfilled r \<Rightarrow>
           (case json r of
              Rejected \<Rightarrow> True
            | Fulfilled g \<Rightarrow> \<not> ok r \<or> latt_longt g = None)) \<longrightarrow>
      geocodePostalCode pf fetch pc =
        (None, [structured_request pc, free_text_request pc, alternate_request pc]))"
proof -
  have first: "geocodePostalCode pf fetch pc = (None, [structured_request pc])"
    if "await_json (fetch (structured_request pc)) = Inl e" for e
    using try_first_throws [of fetch pc e pf] that by (simp add: geocodePostalCode_def)
  have second: "geocodePostalCode pf fetch pc =
      (None, [structured_request pc, free_text_request pc])"
    if "await_json (fetch (structured_request pc)) = Inr d1" "no_results d1"
       "await_json (fetch (free_text_request pc)) = Inl e" for d1 e
    using try_second_throws [of fetch pc d1 e pf] that by (simp add: geocodePostalCode_def)
  have third: "geocodePostalCode pf fetch pc =
      (None, [structured_request pc, free_text_request pc, alternate_request pc])"
    if "await_json (fetch (structured_request pc)) = Inr d1" "no_results d1"
       "await_json (fetch (free_text_request pc)) = Inr d2" "no_results d2"
       "case fetch (alternate_request pc) of
         Rejected \<Rightarrow> True
       | Fulfilled r \<Rightarrow>
           (case json r of
              Rejected \<Rightarrow> True
            | Fulfilled g \<Rightarrow> \<not> ok r \<or> latt_longt g = None)" for d1 d2
    using try_third [of fetch pc d1 d2 pf] that
    by (auto simp: geocodePostalCode_def split: promise.splits)
  show ?thesis
    using first second third by blast
qed

theorem geocode_exception_aborts_witness:
  "geocodePostalCode (\<lambda>s. real (length s))
     (\<lambda>r. case r of
        NominatimPostalcode q \<Rightarrow> Fulfilled \<lparr>ok = True, json = Rejected\<rparr>
      | NominatimQuery q \<Rightarrow>
          Fulfilled \<lparr>ok = True, json = Fulfilled (Places [Place (lit ''43.64'') (lit ''-79.39'')])\<rparr>
      | GeocoderCa q \<Rightarrow> Rejected)
     (lit ''M5V 3L9'') = (None, [NominatimPostalcode (lit ''M5V+3L9'')]) \<and>
   geocodePostalCode (\<lambda>s. real (length s))
     (\<lambda>r. case r of
        NominatimPostalcode q \<Rightarrow> Fulfilled \<lparr>ok = True, json = Fulfilled (Places [])\<rparr>
      | NominatimQuery q \<Rightarrow> Fulfilled \<lparr>ok = True, json = Fulfilled (Places [])\<rparr>
      | GeocoderCa q \<Rightarrow> Rejected)
     (lit ''M5V 3L9'') =
     (None, [NominatimPostalcode (lit ''M5V+3L9''), NominatimQuery (lit ''M5V+3L9''),
             GeocoderCa (lit ''M5V3L9'')])"
proof -
  let ?pc = "lit ''M5V 3L9''"
  let ?f = "\<lambda>r. case r of
        NominatimPostalcode q \<Rightarrow> Fulfilled \<lparr>ok = True, json = Rejected\<rparr>
      | NominatimQuery q \<Rightarrow>
          Fulfilled \<lparr>ok = True, json = Fulfilled (Places [Place (lit ''43.64'') (lit ''-79.39'')])\<rparr>
      | GeocoderCa q \<Rightarrow> Rejected"
  let ?g = "\<lambda>r. case r of
        NominatimPostalcode q \<Rightarrow> Fulfilled \<lparr>ok = True, json = Fulfilled (Places [])\<rparr>
      | NominatimQuery q \<Rightarrow> Fulfilled \<lparr>ok = True, json = Fulfilled (Places [])\<rparr>
      | GeocoderCa q \<Rightarrow> Rejected"
  have 1: "await_json (?f (structured_request ?pc)) = Inl SyntaxError"
    by (simp add: requests_of_example await_json_def)
  have 2: "await_json (?g (structured_request ?pc)) = Inr (Places []) \<and> no_results (Places []) \<and>
           await_json (?g (free_text_request ?pc)) = Inr (Places []) \<and>
           ?g (alternate_request ?pc) = Rejected"
    by (simp add: requests_of_example await_json_def)
  from geocode_exception_aborts [of ?f ?pc "\<lambda>s. real (length s)"] 1
  have a: "geocodePostalCode (\<lambda>s. real (length s)) ?f ?pc = (None, [structured_request ?pc])"
    by blast
  from geocode_exception_aborts [of ?g ?pc "\<lambda>s. real (length s)"] 2
  have b: "geocodePostalCode (\<lambda>s. real (length s)) ?g ?pc =
        (None, [structured_request ?pc, free_text_request ?pc, alternate_request ?pc])"
    by simp
  from a b show ?thesis
    by (simp add: requests_of_example)
qed



section \<open>The area label\<close>











section \<open>The sort engine\<close>

lemma insert_sorted_by_key:
  "insert_sorted (\<lambda>a b. k a - k b) x ys = insort_key k x ys"
  by (induction ys) simp_all

lemma array_sort_by_key:
  "array_sort (\<lambda>a b. k a - k b) xs = sort_key k xs"
proof -
  have "insert_sorted (\<lambda>a b. k a - k b) = insort_key k"
    by (intro ext) (rule insert_sorted_by_key)
  then show ?thesis
    by (simp add: array_sort_def sort_key_def)
qed

lemma sort_key_of_funs:
  "sort_key_of Combined = (\<lambda>h. orZero (totalTimeMinutes h))"
  "sort_key_of TravelTime = (\<lambda>h. orZero (travelTimeMinutes h))"
  "sort_key_of WaitTime = currentWaitTime"
  by (rule ext, simp)+

lemma sortHospitals_by_key:
  "sortHospitals l m = sort_key (sort_key_of m) l"
  by (cases m) (simp_all add: sortHospitals_def array_sort_by_key sort_key_of_funs)








text \<open>
  C9. Sorting is idempotent: for every hospital list and every sort mode, sorting the
  sorted list again with the same mode gives the sorted list.
\<close>

theorem sort_idempotent: "sortHospitals (sortHospitals l m) m = sortHospitals l m"
proof -
  have "sorted (map (sort_key_of m) (sort_key (sort_key_of m) l))"
    by (rule sorted_sort_key)
  then have "sort_key (sort_key_of m) (sort_key (sort_key_of m) l) = sort_key (sort_key_of m) l"
    by (rule sort_key_id_if_sorted)
  then show ?thesis
    by (simp add: sortHospitals_by_key)
qed

theorem sort_idempotent_witness:
  "sortHospitals (sortHospitals
     [blank_hospital\<lparr>currentWaitTime := 30\<rparr>, blank_hospital\<lparr>currentWaitTime := 5\<rparr>]
     WaitTime) WaitTime =
   [blank_hospital\<lparr>currentWaitTime := 5\<rparr>, blank_hospital\<lparr>currentWaitTime := 30\<rparr>]"
proof -
  have "sortHospitals
     [blank_hospital\<lparr>currentWaitTime := 30\<rparr>, blank_hospital\<lparr>currentWaitTime := 5\<rparr>]
     WaitTime =
     [blank_hospital\<lparr>currentWaitTime := 5\<rparr>, blank_hospital\<lparr>currentWaitTime := 30\<rparr>]"
    by (simp add: sortHospitals_def array_sort_def blank_hospital_def)
  with sort_idempotent [of "[blank_hospital\<lparr>currentWaitTime := 30\<rparr>,
      blank_hospital\<lparr>currentWaitTime := 5\<rparr>]" WaitTime]
  show ?thesis
    by simp
qed

section \<open>The enriched collection\<close>







end
